theory Spec2Isabelle
  imports Complex_Main "HOL-Library.Char_ord" "HOL-Library.List_Lexorder"
    "HOL-Library.Product_Lexorder"
begin

section \<open>The store: status, users, tasks\<close>

text \<open>
  The three tables of the SQLite database, each a list of rows in rowid order.
  Timestamps (\<open>created_at\<close>, \<open>updated_at\<close>) are clock readings, modelled as natural
  numbers (seconds); the clock is an explicit argument \<open>now\<close> of every write.
\<close>

type_synonym timestamp = nat

record status_row =
  st_id :: int
  st_name :: string

record user_row =
  u_id :: int
  fullname :: string
  email :: string
  u_created_at :: timestamp

record task_row =
  t_id :: int
  title :: string
  description :: "string option"
  status_id :: int
  user_id :: int
  created_at :: timestamp
  updated_at :: timestamp

record store =
  status :: "status_row list"
  users :: "user_row list"
  tasks :: "task_row list"

text \<open>
  The exceptions of the two scripts. \<open>StatusNotFound name existing\<close> is
  \<open>SystemExit(f"Status '{name}' not found. Available: {existing}")\<close>,
  \<open>UserNotFound uid\<close> is \<open>SystemExit(f"User id={uid} not found.")\<close>,
  \<open>TaskNotFound task_id\<close> is \<open>SystemExit(f"Task id={task_id} not found.")\<close>,
  \<open>RuntimeError msg\<close> is the exception of \<open>seed_tasks\<close>, \<open>IntegrityError\<close> is
  \<open>sqlite3.IntegrityError\<close>, \<open>ValueError\<close> is raised by \<open>random.sample\<close> when the
  sample is larger than the population and \<open>IndexError\<close> by \<open>random.choice\<close> on an
  empty sequence.
\<close>

datatype error =
    StatusNotFound string "string list"
  | UserNotFound int
  | TaskNotFound int
  | RuntimeError string
  | IntegrityError
  | ValueError
  | IndexError

subsection \<open>The schema\<close>

text \<open>
  Modelled from the spec: the schema script \<open>sql/create_tables_alt.sql\<close> is not among
  the sources. The data model gives every table an integer surrogate key, makes
  \<open>status.name\<close> and \<open>users.email\<close> unique, makes \<open>tasks.status_id\<close> and
  \<open>tasks.user_id\<close> foreign keys, and defaults the timestamps to the current time.
  A fresh key is one more than the largest key of the table.
\<close>

definition new_id :: "int list \<Rightarrow> int" where
  "new_id ids = fold max ids 0 + 1"

definition insert_status_or_ignore :: "string \<Rightarrow> store \<Rightarrow> store" where
  "insert_status_or_ignore name st =
     (if name \<in> set (map st_name (status st)) then st
      else st\<lparr>status := status st @
             [\<lparr>st_id = new_id (map st_id (status st)), st_name = name\<rparr>]\<rparr>)"

definition insert_user :: "timestamp \<Rightarrow> string \<times> string \<Rightarrow> store \<Rightarrow> error + store" where
  "insert_user now row st =
     (if snd row \<in> set (map email (users st)) then Inl IntegrityError
      else Inr (st\<lparr>users := users st @
             [\<lparr>u_id = new_id (map u_id (users st)), fullname = fst row,
               email = snd row, u_created_at = now\<rparr>]\<rparr>))"

definition insert_task ::
  "timestamp \<Rightarrow> string \<times> string option \<times> int \<times> int \<Rightarrow> store \<Rightarrow> error + store" where
  "insert_task now row st =
     (case row of (ttl, desc, sid, uid) \<Rightarrow>
        if sid \<in> set (map st_id (status st)) \<and> uid \<in> set (map u_id (users st))
        then Inr (st\<lparr>tasks := tasks st @
               [\<lparr>t_id = new_id (map t_id (tasks st)), title = ttl, description = desc,
                 status_id = sid, user_id = uid, created_at = now, updated_at = now\<rparr>]\<rparr>)
        else Inl IntegrityError)"

text \<open>
  \<open>executemany\<close> of an INSERT: the rows one after the other; the first failure raises,
  and since nothing has been committed the caller's store is the one before the call.
\<close>

fun executemany :: "('r \<Rightarrow> store \<Rightarrow> error + store) \<Rightarrow> 'r list \<Rightarrow> store \<Rightarrow> error + store" where
  "executemany ins [] st = Inr st"
| "executemany ins (r # rs) st =
     (case ins r st of Inl e \<Rightarrow> Inl e | Inr st' \<Rightarrow> executemany ins rs st')"

section \<open>manage\_alt.py\<close>

subsection \<open>Lookups\<close>

definition status_id_by_name :: "store \<Rightarrow> string \<Rightarrow> error + int" where
  "status_id_by_name st name =
     (case filter (\<lambda>r. st_name r = name) (status st) of
        [] \<Rightarrow> Inl (StatusNotFound name (sort (map st_name (status st))))
      | row # _ \<Rightarrow> Inr (st_id row))"


definition ensure_task_exists :: "store \<Rightarrow> int \<Rightarrow> error + unit" where
  "ensure_task_exists st task_id =
     (case filter (\<lambda>r. t_id r = task_id) (tasks st) of
        [] \<Rightarrow> Inl (TaskNotFound task_id)
      | _ # _ \<Rightarrow> Inr ())"

subsection \<open>add-task\<close>


subsection \<open>update-status\<close>

text \<open>
  Modelled from the spec: what the schema does to a task row when it is updated is part
  of \<open>sql/create_tables_alt.sql\<close>, which is not among the sources. The command is
  therefore parameterised by the schema's reaction \<open>trg\<close> to an update of a task row.
  \<open>no_trigger\<close> is a schema without such a reaction; \<open>touch_updated_at\<close> is the
  reaction the data model describes (``\<open>updated_at\<close>: timestamp default now, updated on
  status change'').
\<close>

type_synonym update_trigger = "timestamp \<Rightarrow> task_row \<Rightarrow> task_row"

definition no_trigger :: update_trigger where
  "no_trigger now row = row"

definition touch_updated_at :: update_trigger where
  "touch_updated_at now row = row\<lparr>updated_at := now\<rparr>"

text \<open>\<open>UPDATE tasks SET status_id = ? WHERE id = ?\<close>\<close>

definition update_status_id ::
  "update_trigger \<Rightarrow> timestamp \<Rightarrow> int \<Rightarrow> int \<Rightarrow> store \<Rightarrow> error + store" where
  "update_status_id trg now sid task_id st =
     (if task_id \<in> set (map t_id (tasks st)) \<and> sid \<notin> set (map st_id (status st))
      then Inl IntegrityError
      else Inr (st\<lparr>tasks :=
             map (\<lambda>r. if t_id r = task_id then trg now (r\<lparr>status_id := sid\<rparr>) else r)
               (tasks st)\<rparr>))"

text \<open>The result is the committed store with the task id and status name printed.\<close>

definition cmd_update_status ::
  "update_trigger \<Rightarrow> timestamp \<Rightarrow> store \<Rightarrow> int \<Rightarrow> string \<Rightarrow> error + (store \<times> int \<times> string)" where
  "cmd_update_status trg now st task_id status_name =
     (case ensure_task_exists st task_id of
        Inl e \<Rightarrow> Inl e
      | Inr _ \<Rightarrow>
          (case status_id_by_name st status_name of
             Inl e \<Rightarrow> Inl e
           | Inr sid \<Rightarrow>
               (case update_status_id trg now sid task_id st of
                  Inl e \<Rightarrow> Inl e
                | Inr st' \<Rightarrow> Inr (st', task_id, status_name))))"

subsection \<open>list-inprogress\<close>

record listed_row =
  r_task_id :: int
  r_title :: string
  r_user :: string
  r_email :: string
  r_created_at :: timestamp
  r_updated_at :: timestamp

definition listed :: "task_row \<Rightarrow> user_row \<Rightarrow> listed_row" where
  "listed t u = \<lparr>r_task_id = t_id t, r_title = title t, r_user = fullname u,
     r_email = email u, r_created_at = created_at t, r_updated_at = updated_at t\<rparr>"

text \<open>
  \<open>FROM tasks t JOIN status s ON s.id = t.status_id JOIN users u ON u.id = t.user_id
  WHERE s.name = 'in progress'\<close>
\<close>

definition inprogress_join :: "store \<Rightarrow> listed_row list" where
  "inprogress_join st =
     [listed t u. t \<leftarrow> tasks st, s \<leftarrow> status st, st_id s = status_id t,
                  u \<leftarrow> users st, u_id u = user_id t, st_name s = ''in progress'']"




subsection \<open>What an invocation leaves behind\<close>


definition task_by_id :: "store \<Rightarrow> int \<Rightarrow> task_row option" where
  "task_by_id st task_id = find (\<lambda>r. t_id r = task_id) (tasks st)"

text \<open>A small store on which the commands are evaluated.\<close>

definition store1 :: store where
  "store1 =
     \<lparr>status = [\<lparr>st_id = 1, st_name = ''new''\<rparr>,
                 \<lparr>st_id = 2, st_name = ''in progress''\<rparr>,
                 \<lparr>st_id = 3, st_name = ''completed''\<rparr>],
      users = [\<lparr>u_id = 1, fullname = ''Ann Lee'', email = ''ann@example.org'',
                 u_created_at = 1\<rparr>,
               \<lparr>u_id = 2, fullname = ''Bo Chen'', email = ''bo@example.org'',
                 u_created_at = 1\<rparr>],
      tasks = [\<lparr>t_id = 1, title = ''Write report'', description = None, status_id = 2,
                 user_id = 1, created_at = 3, updated_at = 5\<rparr>,
               \<lparr>t_id = 2, title = ''Review code'', description = Some [], status_id = 1,
                 user_id = 1, created_at = 4, updated_at = 4\<rparr>,
               \<lparr>t_id = 3, title = ''Plan sprint'', description = Some ''agenda'',
                 status_id = 2, user_id = 2, created_at = 5, updated_at = 5\<rparr>,
               \<lparr>t_id = 4, title = ''Fix build'', description = None, status_id = 2,
                 user_id = 2, created_at = 6, updated_at = 9\<rparr>]\<rparr>"


section \<open>seed.py\<close>

subsection \<open>The library calls of the generator\<close>

text \<open>
  The generator draws from the global generator of Python's \<open>random\<close> module, whose
  state has the type \<open>'g\<close>, and iterates over a set of integers. Both belong to the
  Python runtime and are parameters of the model: \<open>rnd_uniform a b\<close> is
  \<open>random.uniform(a, b)\<close>, \<open>rnd_sample population k\<close> is \<open>random.sample\<close> for
  \<open>k \<le> len(population)\<close>, \<open>rnd_choice seq\<close> is \<open>random.choice\<close> on a non-empty
  sequence, \<open>rnd_random\<close> is \<open>random.random()\<close>, and \<open>set_order xs\<close> is the order in which
  \<open>list(set(xs))\<close> lists the elements. Floats are modelled as real numbers.
\<close>

record 'g python =
  rnd_uniform :: "real \<Rightarrow> real \<Rightarrow> 'g \<Rightarrow> real \<times> 'g"
  rnd_sample :: "int list \<Rightarrow> nat \<Rightarrow> 'g \<Rightarrow> int list \<times> 'g"
  rnd_choice :: "int list \<Rightarrow> 'g \<Rightarrow> int \<times> 'g"
  rnd_random :: "'g \<Rightarrow> real \<times> 'g"
  set_order :: "int list \<Rightarrow> int list"

text \<open>
  The Faker instance, with state \<open>'f\<close>. It draws from a generator of its own
  (\<open>Faker.seed\<close>), not from the global one of the \<open>random\<close> module.
\<close>

record 'f faker =
  fake_name :: "'f \<Rightarrow> string \<times> 'f"
  fake_unique_email :: "'f \<Rightarrow> string \<times> 'f"
  fake_sentence :: "'f \<Rightarrow> string \<times> 'f"
  fake_paragraph :: "'f \<Rightarrow> string \<times> 'f"

text \<open>What the documentation of the library promises about these calls.\<close>

definition sample_spec :: "'g python \<Rightarrow> bool" where
  "sample_spec R \<longleftrightarrow>
     (\<forall>population k g. k \<le> length population \<longrightarrow>
        length (fst (rnd_sample R population k g)) = k
      \<and> set (fst (rnd_sample R population k g)) \<subseteq> set population
      \<and> (distinct population \<longrightarrow> distinct (fst (rnd_sample R population k g))))"

definition set_order_spec :: "'g python \<Rightarrow> bool" where
  "set_order_spec R \<longleftrightarrow>
     (\<forall>xs. set (set_order R xs) = set xs \<and> distinct (set_order R xs))"

definition paragraph_nonempty :: "'f faker \<Rightarrow> bool" where
  "paragraph_nonempty F \<longleftrightarrow> (\<forall>f. fst (fake_paragraph F f) \<noteq> [])"

text \<open>\<open>int(x)\<close> on a float truncates towards zero.\<close>

definition py_int :: "real \<Rightarrow> int" where
  "py_int x = (if 0 \<le> x then \<lfloor>x\<rfloor> else \<lceil>x\<rceil>)"

text \<open>
  \<open>str.lower\<close> and \<open>str.rstrip(".")\<close>. Strings are byte strings here; \<open>lower\<close> maps the
  ASCII capitals and leaves every other byte as it is.
\<close>

definition lower_char :: "char \<Rightarrow> char" where
  "lower_char c =
     (if CHR ''A'' \<le> c \<and> c \<le> CHR ''Z'' then char_of (of_char c + (32::nat)) else c)"

definition lower :: "string \<Rightarrow> string" where
  "lower s = map lower_char s"

definition rstrip_dot :: "string \<Rightarrow> string" where
  "rstrip_dot s = rev (dropWhile (\<lambda>c. c = CHR ''.'') (rev s))"

subsection \<open>Status and users\<close>

definition DEFAULT_STATUSES :: "string list" where
  "DEFAULT_STATUSES = [''new'', ''in progress'', ''completed'']"

definition seed_status :: "store \<Rightarrow> store" where
  "seed_status st = fold insert_status_or_ignore DEFAULT_STATUSES st"

fun user_rows :: "'f faker \<Rightarrow> nat \<Rightarrow> 'f \<Rightarrow> (string \<times> string) list \<times> 'f" where
  "user_rows F 0 f = ([], f)"
| "user_rows F (Suc k) f =
     (let (name, f1) = fake_name F f;
          (mail, f2) = fake_unique_email F f1;
          (rows, f3) = user_rows F k f2
      in ((name, lower mail) # rows, f3))"

text \<open>\<open>range(n)\<close> is empty for a negative \<open>n\<close>.\<close>

definition seed_users ::
  "'f faker \<Rightarrow> timestamp \<Rightarrow> store \<Rightarrow> int \<Rightarrow> 'f \<Rightarrow> error + (store \<times> 'f)" where
  "seed_users F now st n f =
     (let (rows, f') = user_rows F (nat n) f in
      case executemany (insert_user now) rows st of
        Inl e \<Rightarrow> Inl e
      | Inr st' \<Rightarrow> Inr (st', f'))"

datatype table = Status | Users | Tasks

definition get_ids :: "store \<Rightarrow> table \<Rightarrow> int list" where
  "get_ids st tbl =
     (case tbl of Status \<Rightarrow> map st_id (status st)
                | Users \<Rightarrow> map u_id (users st)
                | Tasks \<Rightarrow> map t_id (tasks st))"

subsection \<open>Tasks\<close>

text \<open>
  \<open>k = max(1, int(len(user_ids) * random.uniform(0.65, 0.75)))\<close> and the set of the
  sample of that size.
\<close>

definition sample_size :: "nat \<Rightarrow> real \<Rightarrow> int" where
  "sample_size n f = max 1 (py_int (real n * f))"

definition users_with_tasks ::
  "'g python \<Rightarrow> int list \<Rightarrow> 'g \<Rightarrow> error + (int list \<times> 'g)" where
  "users_with_tasks R user_ids g =
     (let (f, g1) = rnd_uniform R (65 / 100) (75 / 100) g;
          k = sample_size (length user_ids) f
      in if int (length user_ids) < k then Inl ValueError
         else (let (smp, g2) = rnd_sample R user_ids (nat k) g1
               in Inr (set_order R smp, g2)))"

text \<open>
  The generator \<open>status_round_robin\<close>. Its state is the part of \<open>status_ids\<close> that the
  running \<open>for\<close> loop has not yielded yet. When that loop is exhausted, \<open>while True\<close>
  starts it again; on an empty \<open>status_ids\<close> this never yields, which is \<open>None\<close>.
\<close>

definition next_rr :: "int list \<Rightarrow> int list \<Rightarrow> (int \<times> int list) option" where
  "next_rr status_ids rest =
     (case rest of
        sid # rest' \<Rightarrow> Some (sid, rest')
      | [] \<Rightarrow> (case status_ids of
                 sid # rest' \<Rightarrow> Some (sid, rest')
               | [] \<Rightarrow> None))"

text \<open>The three-way choice of the description from the draw \<open>r\<close>.\<close>

definition choose_desc :: "'f faker \<Rightarrow> real \<Rightarrow> 'f \<Rightarrow> string option \<times> 'f" where
  "choose_desc F r f =
     (if r < 2 / 10 then (None, f)
      else if r < 3 / 10 then (Some [], f)
      else (let (p, f') = fake_paragraph F f in (Some p, f')))"

type_synonym task_values = "string \<times> string option \<times> int \<times> int"

text \<open>
  The loop \<open>for i in range(n)\<close> that builds \<open>rows\<close>. \<open>None\<close>: the loop does not return.
\<close>

fun task_rows ::
  "'g python \<Rightarrow> 'f faker \<Rightarrow> int list \<Rightarrow> int list \<Rightarrow> nat \<Rightarrow> 'g \<Rightarrow> 'f \<Rightarrow> int list
   \<Rightarrow> (error + task_values list) option" where
  "task_rows R F status_ids uwt 0 g f rr = Some (Inr [])"
| "task_rows R F status_ids uwt (Suc k) g f rr =
     (if set_order R uwt = [] then Some (Inl IndexError)
      else
        let (uid, g1) = rnd_choice R (set_order R uwt) g in
        case next_rr status_ids rr of
          None \<Rightarrow> None
        | Some (sid, rr') \<Rightarrow>
            let (sentence, f1) = fake_sentence F f;
                ttl = rstrip_dot sentence;
                (r, g2) = rnd_random R g1;
                (desc, f2) = choose_desc F r f1
            in (case task_rows R F status_ids uwt k g2 f2 rr' of
                  None \<Rightarrow> None
                | Some (Inl e) \<Rightarrow> Some (Inl e)
                | Some (Inr rows) \<Rightarrow> Some (Inr ((ttl, desc, sid, uid) # rows))))"

definition seed_tasks ::
  "'g python \<Rightarrow> 'f faker \<Rightarrow> timestamp \<Rightarrow> store \<Rightarrow> int \<Rightarrow> 'g \<Rightarrow> 'f
   \<Rightarrow> (error + store) option" where
  "seed_tasks R F now st n g f =
     (let user_ids = get_ids st Users;
          status_ids = get_ids st Status
      in if user_ids = [] \<or> status_ids = []
         then Some (Inl (RuntimeError ''Users/status must be populated before tasks''))
         else
           (case users_with_tasks R user_ids g of
              Inl e \<Rightarrow> Some (Inl e)
            | Inr (uwt, g1) \<Rightarrow>
                (case task_rows R F status_ids uwt (nat n) g1 f status_ids of
                   None \<Rightarrow> None
                 | Some (Inl e) \<Rightarrow> Some (Inl e)
                 | Some (Inr rows) \<Rightarrow> Some (executemany (insert_task now) rows st))))"

subsection \<open>main\<close>

text \<open>
  Modelled from the spec: \<open>bootstrap_schema\<close> runs \<open>sql/create_tables_alt.sql\<close>, which is
  not among the sources; on a fresh store it leaves the three tables empty.
\<close>

definition fresh_store :: store where
  "fresh_store = \<lparr>status = [], users = [], tasks = []\<rparr>"

text \<open>
  \<open>g\<close> and \<open>f\<close> are the states of the two generators after \<open>random.seed(1337)\<close> and
  \<open>Faker.seed(1337)\<close>.
\<close>

definition seed_main ::
  "'g python \<Rightarrow> 'f faker \<Rightarrow> timestamp \<Rightarrow> int \<Rightarrow> int \<Rightarrow> 'g \<Rightarrow> 'f \<Rightarrow> (error + store) option" where
  "seed_main R F now n_users n_tasks g f =
     (case seed_users F now (seed_status fresh_store) n_users f of
        Inl e \<Rightarrow> Some (Inl e)
      | Inr (st, f') \<Rightarrow> seed_tasks R F now st n_tasks g f')"

text \<open>The fields of a task row that do not depend on the generated text.\<close>

datatype desc_state = Absent | Empty | Populated

definition state_of_desc :: "string option \<Rightarrow> desc_state" where
  "state_of_desc d = (case d of None \<Rightarrow> Absent | Some [] \<Rightarrow> Empty | Some (_ # _) \<Rightarrow> Populated)"

definition pattern :: "task_row \<Rightarrow> int \<times> int \<times> int \<times> desc_state" where
  "pattern t = (t_id t, status_id t, user_id t, state_of_desc (description t))"

subsection \<open>A runtime for evaluation\<close>

text \<open>
  A small instance of the library calls, on which the generator is evaluated: the state
  of the generator is a counter, \<open>random()\<close> returns a number of tenths, the sample is a
  prefix, the choice is the element at the counter's position.
\<close>

definition counter_python :: "nat python" where
  "counter_python =
     \<lparr>rnd_uniform = (\<lambda>a b g. (a + (b - a) * (real (g mod 10) / 10), Suc g)),
      rnd_sample = (\<lambda>population k g. (take k population, Suc g)),
      rnd_choice = (\<lambda>seq g. (seq ! (g mod length seq), Suc g)),
      rnd_random = (\<lambda>g. (real (g mod 10) / 10, g + 2)),
      set_order = remdups\<rparr>"

definition counter_faker :: "nat faker" where
  "counter_faker =
     \<lparr>fake_name = (\<lambda>f. (''User'', Suc f)),
      fake_unique_email = (\<lambda>f. (replicate (Suc f) CHR ''A'' @ ''@Example.org'', Suc f)),
      fake_sentence = (\<lambda>f. (''Do it now.'', Suc f)),
      fake_paragraph = (\<lambda>f. (''Some text.'', Suc f))\<rparr>"

definition other_faker :: "nat faker" where
  "other_faker =
     \<lparr>fake_name = (\<lambda>f. (''Person'', f + 2)),
      fake_unique_email = (\<lambda>f. (replicate (Suc f) CHR ''b'' @ ''@mail.test'', f + 2)),
      fake_sentence = (\<lambda>f. (''Another title.'', f + 2)),
      fake_paragraph = (\<lambda>f. (''Different words here.'', f + 2))\<rparr>"

section \<open>Properties of manage\_alt.py\<close>

lemma filter_empty_iff_not_in_image:
  "filter (\<lambda>r. f r = k) xs = [] \<longleftrightarrow> k \<notin> set (map f xs)"
  by (induction xs) auto



text \<open>
  C7. Looking up a status name that the status table does not hold fails with the
  status-not-found error whose list of names has exactly the names of the table as its
  elements; looking up a name that the table holds returns the id of a row with that
  name (the first one).
\<close>

theorem status_id_by_name_spec:
  "(name \<notin> set (map st_name (status st)) \<longrightarrow>
      (\<exists>existing. status_id_by_name st name = Inl (StatusNotFound name existing)
          \<and> set existing = set (map st_name (status st))))
 \<and> (name \<in> set (map st_name (status st)) \<longrightarrow>
      (\<exists>row \<in> set (status st). st_name row = name
          \<and> status_id_by_name st name = Inr (st_id row)
          \<and> row = hd (filter (\<lambda>r. st_name r = name) (status st))))"
proof (intro conjI impI)
  assume "name \<notin> set (map st_name (status st))"
  then have "filter (\<lambda>r. st_name r = name) (status st) = []"
    by (simp only: filter_empty_iff_not_in_image not_False_eq_True)
  then show "\<exists>existing. status_id_by_name st name = Inl (StatusNotFound name existing)
          \<and> set existing = set (map st_name (status st))"
    by (simp add: status_id_by_name_def)
next
  assume "name \<in> set (map st_name (status st))"
  then have "filter (\<lambda>r. st_name r = name) (status st) \<noteq> []"
    by (simp only: filter_empty_iff_not_in_image not_not)
  then obtain row rest where fr: "filter (\<lambda>r. st_name r = name) (status st) = row # rest"
    by (cases "filter (\<lambda>r. st_name r = name) (status st)") auto
  then have "row \<in> set (filter (\<lambda>r. st_name r = name) (status st))"
    by simp
  then have "row \<in> set (status st)" "st_name row = name"
    by auto
  moreover have "status_id_by_name st name = Inr (st_id row)"
    using fr by (simp add: status_id_by_name_def)
  ultimately show "\<exists>row \<in> set (status st). st_name row = name
          \<and> status_id_by_name st name = Inr (st_id row)
          \<and> row = hd (filter (\<lambda>r. st_name r = name) (status st))"
    using fr by auto
qed

theorem status_id_by_name_spec_witness:
  "''done'' \<notin> set (map st_name (status store1))
 \<and> (\<exists>existing. status_id_by_name store1 ''done'' = Inl (StatusNotFound ''done'' existing)
       \<and> set existing = {''new'', ''in progress'', ''completed''})
 \<and> ''completed'' \<in> set (map st_name (status store1))
 \<and> status_id_by_name store1 ''completed'' = Inr 3"
proof -
  have h1: "''done'' \<notin> set (map st_name (status store1))" by (simp add: store1_def)
  have h2: "''completed'' \<in> set (map st_name (status store1))" by (simp add: store1_def)
  have s: "set (map st_name (status store1)) = {''new'', ''in progress'', ''completed''}"
    by (simp add: store1_def)
  have f: "hd (filter (\<lambda>r. st_name r = ''completed'') (status store1))
             = \<lparr>st_id = 3, st_name = ''completed''\<rparr>"
    by (simp add: store1_def)
  from status_id_by_name_spec [of "''done''" store1] h1 s
  have a: "\<exists>existing. status_id_by_name store1 ''done'' = Inl (StatusNotFound ''done'' existing)
       \<and> set existing = {''new'', ''in progress'', ''completed''}"
    by simp
  from status_id_by_name_spec [of "''completed''" store1] h2 f
  have b: "status_id_by_name store1 ''completed'' = Inr 3"
    by auto
  from h1 h2 a b show ?thesis by blast
qed

subsection \<open>list-inprogress\<close>


lemma join_complete:
  "t \<in> set (tasks st) \<Longrightarrow> s \<in> set (status st) \<Longrightarrow> u \<in> set (users st) \<Longrightarrow>
   st_id s = status_id t \<Longrightarrow> u_id u = user_id t \<Longrightarrow> st_name s = ''in progress'' \<Longrightarrow>
   listed t u \<in> set (inprogress_join st)"
  unfolding inprogress_join_def by auto






end
